theory Spec2Isabelle
  imports Main "HOL-Library.Char_ord"
begin

section \<open>The version accessor of libvscode-diff\<close>

text \<open>
  The translation unit \<^verbatim>\<open>src/diff_api.c\<close> defines one function:
  \<^verbatim>\<open>
  const char *diff_api_get_version(void) { return "0.3.0"; }
  \<close>
  Its result is a pointer into an array of \<^verbatim>\<open>char\<close> with static storage duration, the
  object of the string literal. The model keeps the two things a caller across the
  foreign-function boundary can see: the pointer that comes back, and the bytes that are
  read through it.
\<close>

subsection \<open>Objects, pointers and faults\<close>

text \<open>
  A C \<^verbatim>\<open>char\<close> is one byte, as a HOL \<^typ>\<open>char\<close> is. Memory is a collection of
  disjoint objects; a pointer is null or names an object and an offset into it. The
  objects of string literals belong to the program image and cannot be written to;
  every other object lives in the mutable state of the process. The record of that
  state is left open: the functions below are defined on every extension of it, so
  whatever else a process holds is part of the state they are handed.
\<close>

datatype block = Literal nat | Object nat

datatype cptr = Null | Ptr block nat

datatype fault = NullDereference | DanglingPointer | OutOfBounds | Unterminated

record process_state =
  objects :: "nat \<rightharpoonup> string"

text \<open>
  A string literal denotes an array holding its characters followed by a terminating
  zero byte.
\<close>

definition nul :: char where
  "nul = CHR 0x00"

definition literal_object :: "string \<Rightarrow> string" where
  "literal_object cs = cs @ [nul]"

text \<open>The string literals of \<^verbatim>\<open>diff_api.c\<close>, in the order they occur: there is one.\<close>

definition string_literals :: "string list" where
  "string_literals = [literal_object ''0.3.0'']"

text \<open>
  An array expression in a \<^verbatim>\<open>return\<close> statement is converted to a pointer to its first
  element.
\<close>

definition decay :: "block \<Rightarrow> cptr" where
  "decay b = Ptr b 0"

subsection \<open>Reading through a pointer\<close>

definition object_bytes :: "'a process_state_scheme \<Rightarrow> block \<Rightarrow> string option" where
  "object_bytes s b =
     (case b of
        Literal i \<Rightarrow> (if i < length string_literals then Some (string_literals ! i) else None)
      | Object a \<Rightarrow> objects s a)"

text \<open>\<^verbatim>\<open>*p\<close>: defined only for a pointer into a live object, inside its bounds.\<close>

definition load :: "'a process_state_scheme \<Rightarrow> cptr \<Rightarrow> fault + char" where
  "load s p =
     (case p of
        Null \<Rightarrow> Inl NullDereference
      | Ptr b off \<Rightarrow>
          (case object_bytes s b of
             None \<Rightarrow> Inl DanglingPointer
           | Some bs \<Rightarrow> if off < length bs then Inr (bs ! off) else Inl OutOfBounds))"

text \<open>\<^verbatim>\<open>p[i]\<close>: the same, \<open>i\<close> elements further on.\<close>

definition load_at :: "'a process_state_scheme \<Rightarrow> cptr \<Rightarrow> nat \<Rightarrow> fault + char" where
  "load_at s p i =
     (case p of
        Null \<Rightarrow> Inl NullDereference
      | Ptr b off \<Rightarrow> load s (Ptr b (off + i)))"

text \<open>The bytes in front of the first zero byte; \<open>None\<close> when there is no zero byte.\<close>

fun until_nul :: "string \<Rightarrow> string option" where
  "until_nul [] = None"
| "until_nul (c # cs) =
     (if c = nul then Some [] else map_option ((#) c) (until_nul cs))"

text \<open>
  What a reader of a C string sees at \<open>p\<close> (as \<^verbatim>\<open>strlen\<close>, \<^verbatim>\<open>strcmp\<close> or LuaJIT's
  \<^verbatim>\<open>ffi.string\<close> do): the bytes from \<open>p\<close> up to the terminator, which has to come
  before the end of the object.
\<close>

definition c_string :: "'a process_state_scheme \<Rightarrow> cptr \<Rightarrow> fault + string" where
  "c_string s p =
     (case p of
        Null \<Rightarrow> Inl NullDereference
      | Ptr b off \<Rightarrow>
          (case object_bytes s b of
             None \<Rightarrow> Inl DanglingPointer
           | Some bs \<Rightarrow>
               if off < length bs then
                 (case until_nul (drop off bs) of
                    None \<Rightarrow> Inl Unterminated
                  | Some cs \<Rightarrow> Inr cs)
               else Inl OutOfBounds))"

definition c_strlen :: "'a process_state_scheme \<Rightarrow> cptr \<Rightarrow> fault + nat" where
  "c_strlen s p = (case c_string s p of Inl e \<Rightarrow> Inl e | Inr cs \<Rightarrow> Inr (length cs))"

subsection \<open>The accessor\<close>

text \<open>
  A call takes the state of the process and either faults or returns a value together
  with the state it leaves behind. The body is the single statement
  \<^verbatim>\<open>return "0.3.0";\<close>.
\<close>

definition diff_api_get_version ::
  "'a process_state_scheme \<Rightarrow> fault + cptr \<times> 'a process_state_scheme" where
  "diff_api_get_version s = Inr (decay (Literal 0), s)"

text \<open>Calling the accessor \<open>n\<close> times in a row, each call starting where the last one ended.\<close>

fun repeat_calls ::
  "nat \<Rightarrow> 'a process_state_scheme \<Rightarrow> fault + 'a process_state_scheme" where
  "repeat_calls 0 s = Inr s"
| "repeat_calls (Suc n) s =
     (case diff_api_get_version s of
        Inl e \<Rightarrow> Inl e
      | Inr (p, s') \<Rightarrow> repeat_calls n s')"

subsection \<open>Predicates on the returned text\<close>

definition is_ascii :: "char \<Rightarrow> bool" where
  "is_ascii c \<longleftrightarrow> (of_char c :: nat) < 128"

definition is_digit :: "char \<Rightarrow> bool" where
  "is_digit c \<longleftrightarrow> CHR ''0'' \<le> c \<and> c \<le> CHR ''9''"

text \<open>A component of a version number: one decimal digit or more, and nothing else.\<close>

definition is_number :: "string \<Rightarrow> bool" where
  "is_number cs \<longleftrightarrow> cs \<noteq> [] \<and> list_all is_digit cs"

definition count_dots :: "string \<Rightarrow> nat" where
  "count_dots cs = length (filter (\<lambda>c. c = CHR ''.'') cs)"

section \<open>Properties\<close>

subsection \<open>Facts about the literal\<close>

lemma until_nul_literal_object:
  "nul \<notin> set cs \<Longrightarrow> until_nul (literal_object cs) = Some cs"
  by (induction cs) (auto simp: literal_object_def)

lemma version_chars_no_nul: "nul \<notin> set ''0.3.0''"
  by (simp add: nul_def)

lemma object_bytes_version:
  "object_bytes s (Literal 0) = Some (literal_object ''0.3.0'')"
  by (simp add: object_bytes_def string_literals_def)

lemma c_string_version:
  "c_string s (decay (Literal 0)) = Inr ''0.3.0''"
  using until_nul_literal_object [OF version_chars_no_nul]
  by (simp add: c_string_def decay_def object_bytes_version) (simp add: literal_object_def)

text \<open>
  The object of the literal is six bytes long. Reading through a null pointer, or past
  the terminator, is a fault of the model, so the theorems below that read through the
  returned pointer say something.
\<close>

lemma c_string_Null: "c_string s Null = Inl NullDereference"
  by (simp add: c_string_def)

lemma load_Null: "load s Null = Inl NullDereference"
  by (simp add: load_def)

lemma load_at_version_past_end:
  "load_at s (decay (Literal 0)) 6 = Inl OutOfBounds"
  by (simp add: load_at_def load_def decay_def object_bytes_version literal_object_def)

lemma c_string_unterminated:
  "c_string \<lparr>objects = [0 \<mapsto> ''0.3.0'']\<rparr> (Ptr (Object 0) 0) = Inl Unterminated"
  by (simp add: c_string_def object_bytes_def nul_def)

subsection \<open>The returned text\<close>

text \<open>
  C1. A call returns a pointer, and the C string read through it in the state the call
  leaves behind is exactly the five characters \<open>0\<close>, \<open>.\<close>, \<open>3\<close>, \<open>.\<close>, \<open>0\<close>.
\<close>

theorem get_version_returns_0_3_0:
  "\<exists>p s'. diff_api_get_version s = Inr (p, s') \<and>
     c_string s' p = Inr [CHR ''0'', CHR ''.'', CHR ''3'', CHR ''.'', CHR ''0'']"
  using c_string_version [of s] by (simp add: diff_api_get_version_def)

text \<open>
  C2. The result does not depend on when the call is made: whatever the states \<open>s\<close> and
  \<open>t\<close> of the process at two invocations, both return the same pointer, and the strings
  read through it after either call are the same, byte for byte.
\<close>

theorem get_version_deterministic:
  "\<exists>p s' q t' v. diff_api_get_version s = Inr (p, s') \<and> diff_api_get_version t = Inr (q, t') \<and>
     p = q \<and> c_string s' p = Inr v \<and> c_string t' q = Inr v"
  using c_string_version [of s] c_string_version [of t]
  by (simp add: diff_api_get_version_def)

text \<open>
  C3. The accessor is total and cannot fail: in every state of the process the call
  returns a value, and in no state does it end in a fault.
\<close>

theorem get_version_total:
  "(\<exists>p s'. diff_api_get_version s = Inr (p, s')) \<and> (\<forall>e. diff_api_get_version s \<noteq> Inl e)"
  by (simp add: diff_api_get_version_def)

text \<open>C4. The string returned by every call has at least one character.\<close>

theorem get_version_nonempty:
  "\<exists>p s' v. diff_api_get_version s = Inr (p, s') \<and> c_string s' p = Inr v \<and> 1 \<le> length v"
  using c_string_version [of s] by (simp add: diff_api_get_version_def)

text \<open>
  C5. The returned string has the shape MAJOR.MINOR.PATCH: three components, each a
  non-empty run of decimal digits, with one dot between neighbours, so that the string
  holds exactly two dots.
\<close>

theorem get_version_semver:
  "\<exists>p s' major minor patch.
     diff_api_get_version s = Inr (p, s') \<and>
     c_string s' p = Inr (major @ ''.'' @ minor @ ''.'' @ patch) \<and>
     is_number major \<and> is_number minor \<and> is_number patch \<and>
     count_dots (major @ ''.'' @ minor @ ''.'' @ patch) = 2"
proof -
  have "is_number ''0''" and "is_number ''3''"
    by (simp_all add: is_number_def is_digit_def)
  moreover have "count_dots (''0'' @ ''.'' @ ''3'' @ ''.'' @ ''0'') = 2"
    by (simp add: count_dots_def)
  moreover have "c_string s (decay (Literal 0)) = Inr (''0'' @ ''.'' @ ''3'' @ ''.'' @ ''0'')"
    using c_string_version [of s] by simp
  ultimately show ?thesis
    unfolding diff_api_get_version_def by blast
qed

text \<open>
  C6. A call has no effect on the state: the state it leaves behind is the state it
  was made in, and so is the state after any number of calls in a row.
\<close>

theorem get_version_no_side_effects:
  "(\<exists>p. diff_api_get_version s = Inr (p, s)) \<and> repeat_calls n s = Inr s"
proof
  show "\<exists>p. diff_api_get_version s = Inr (p, s)"
    by (simp add: diff_api_get_version_def)
  show "repeat_calls n s = Inr s"
    by (induction n) (simp_all add: diff_api_get_version_def)
qed

text \<open>
  C7. The returned value is null-terminated ASCII text: every byte of the string read
  through the pointer is an ASCII code point, and the byte right after the last one,
  still inside the object, is the zero byte.
\<close>

theorem get_version_ascii_nul_terminated:
  "\<exists>p s' v. diff_api_get_version s = Inr (p, s') \<and> c_string s' p = Inr v \<and>
     list_all is_ascii v \<and> load_at s' p (length v) = Inr nul"
proof -
  have "list_all is_ascii ''0.3.0''"
    by (simp add: is_ascii_def)
  moreover have "load_at s (decay (Literal 0)) (length ''0.3.0'') = Inr nul"
    by (simp add: load_at_def load_def decay_def object_bytes_version literal_object_def)
  ultimately show ?thesis
    using c_string_version [of s] by (simp add: diff_api_get_version_def)
qed

text \<open>
  C9. The returned pointer is never null and always designates an actual string value:
  the pointer differs from the null pointer, reading the byte it points to yields a
  character and not a fault, and reading the C string it points to yields a string and
  not a fault, the terminator being found inside the object.
\<close>

theorem get_version_not_null:
  "\<exists>p s'. diff_api_get_version s = Inr (p, s') \<and> p \<noteq> Null \<and>
     (\<exists>c. load s' p = Inr c) \<and> (\<exists>v. c_string s' p = Inr v)"
proof -
  let ?p = "decay (Literal 0)"
  have ret: "diff_api_get_version s = Inr (?p, s)"
    by (simp add: diff_api_get_version_def)
  have not_null: "?p \<noteq> Null"
    by (simp add: decay_def)
  have deref: "\<exists>c. load s ?p = Inr c"
    by (simp add: decay_def load_def object_bytes_version literal_object_def)
  have str: "\<exists>v. c_string s ?p = Inr v"
    using c_string_version [of s] by blast
  from ret not_null deref str show ?thesis
    by blast
qed

text \<open>
  C10. The length of the returned string, not counting the terminator, is exactly 5.
\<close>

theorem get_version_length_5:
  "\<exists>p s'. diff_api_get_version s = Inr (p, s') \<and> c_strlen s' p = Inr 5"
  using c_string_version [of s] by (simp add: diff_api_get_version_def c_strlen_def)

end
